theory Spec2Isabelle
  imports Complex_Main
begin

section \<open>Data model\<close>

text \<open>
  The TypeScript type \<open>number\<close> is IEEE binary64. The functions below are modelled
  in exact rational arithmetic: their branches, guards and formulas are the ones of the
  code, and rounding, NaN and the infinities are left out. Section \<open>IEEE binary64\<close>
  gives \<open>calculateGPA\<close> a second time with every operation rounded. Every \<open>number\<close>
  (credits, grade points, marks, scale selectors) may be negative, as in the source.
\<close>

type_synonym number = rat

text \<open>
  A JavaScript string is a \<open>string\<close> (a list of characters); the empty string is the
  only falsy string.
\<close>

text \<open>
  \<open>Course\<close> and \<open>Semester\<close> are imported from \<open>../types\<close>; their fields are the ones
  of the object literals in \<open>GPACalculator.tsx\<close>. The fields \<open>id\<close> and \<open>name\<close> occur
  in both, so they carry the record's name as a prefix here.
\<close>

record Course =
  course_id :: string
  course_name :: string
  credits :: number
  grade :: string
  gradePoint :: number

record Semester =
  semester_id :: string
  semester_name :: string
  courses :: "Course list"
  gpa :: number
  totalCredits :: number
  date :: string

section \<open>utils/calculations\<close>

text \<open>
  \<open>getGradeScale\<close> returns an object literal: the association list of its
  properties, in the order of the source. \<open>map_of\<close> reads a property.
\<close>

definition getGradeScale :: "number \<Rightarrow> (string \<times> number) list" where
  "getGradeScale maxScale =
     (if maxScale = 5 then
        [(''A+'', 5), (''A'', 9 / 2), (''B+'', 4), (''B'', 7 / 2), (''C+'', 3),
         (''C'', 5 / 2), (''D+'', 2), (''D'', 3 / 2), (''F'', 0)]
      else
        [(''A+'', 4), (''A'', 4), (''B+'', 7 / 2), (''B'', 3), (''C+'', 5 / 2),
         (''C'', 2), (''D+'', 3 / 2), (''D'', 1), (''F'', 0)])"

text \<open>\<open>Array.prototype.reduce\<close> with an initial value is \<open>foldl\<close>.\<close>

definition calculateGPA :: "Course list \<Rightarrow> number" where
  "calculateGPA cs =
     (if length cs = 0 then 0
      else
        let totalPoints = foldl (\<lambda>sum course. sum + gradePoint course * credits course) 0 cs;
            totalCreditHours = foldl (\<lambda>sum course. sum + credits course) 0 cs
        in if totalCreditHours > 0 then totalPoints / totalCreditHours else 0)"

definition calculateCGPA :: "Semester list \<Rightarrow> number" where
  "calculateCGPA semesters =
     (if length semesters = 0 then 0
      else
        let totalPoints = foldl (\<lambda>sum sem. sum + gpa sem * totalCredits sem) 0 semesters;
            totalCreditHours = foldl (\<lambda>sum sem. sum + totalCredits sem) 0 semesters
        in if totalCreditHours > 0 then totalPoints / totalCreditHours else 0)"

definition calculateRequiredGPA :: "number \<Rightarrow> number \<Rightarrow> number \<Rightarrow> number \<Rightarrow> number" where
  "calculateRequiredGPA currentCGPA currentCredits targetCGPA remainingCredits =
     (if remainingCredits \<le> 0 then 0
      else
        let totalCreditsNeeded = currentCredits + remainingCredits;
            totalPointsNeeded = targetCGPA * totalCreditsNeeded;
            currentPoints = currentCGPA * currentCredits;
            requiredPoints = totalPointsNeeded - currentPoints
        in requiredPoints / remainingCredits)"

text \<open>The result object \<open>{ class, color }\<close>; \<open>class\<close> is a keyword, hence \<open>class_name\<close>.\<close>

record AcademicClass =
  class_name :: string
  color :: string

definition getAcademicClass :: "number \<Rightarrow> number \<Rightarrow> AcademicClass" where
  "getAcademicClass cgpa gradingScale =
     (if gradingScale = 5 then
        (if cgpa \<ge> 9 / 2 then \<lparr>class_name = ''First Class'', color = ''#1e8449''\<rparr>
         else if cgpa \<ge> 7 / 2 then \<lparr>class_name = ''Second Class (Upper)'', color = ''#196f3d''\<rparr>
         else if cgpa \<ge> 5 / 2 then \<lparr>class_name = ''Second Class (Lower)'', color = ''#5dade2''\<rparr>
         else if cgpa \<ge> 2 then \<lparr>class_name = ''Third Class'', color = ''#f5b041''\<rparr>
         else if cgpa \<ge> 3 / 2 then \<lparr>class_name = ''Pass'', color = ''#eb984e''\<rparr>
         else \<lparr>class_name = ''Fail'', color = ''#ec7063''\<rparr>)
      else
        (if cgpa \<ge> 18 / 5 then \<lparr>class_name = ''First Class'', color = ''#201e84''\<rparr>
         else if cgpa \<ge> 3 then \<lparr>class_name = ''Second Class (Upper)'', color = ''#e4d726''\<rparr>
         else if cgpa \<ge> 2 then \<lparr>class_name = ''Second Class (Lower)'', color = ''#c1e911''\<rparr>
         else if cgpa \<ge> 3 / 2 then \<lparr>class_name = ''Third Class'', color = ''#f5b041''\<rparr>
         else if cgpa \<ge> 1 then \<lparr>class_name = ''Pass'', color = ''#8b0c81''\<rparr>
         else \<lparr>class_name = ''Fail'', color = ''#f0210a''\<rparr>))"

definition getGradeFromMarks :: "number \<Rightarrow> number \<Rightarrow> string" where
  "getGradeFromMarks marks gradingScale =
     (if marks < 0 \<or> marks > 100 then ''''
      else if gradingScale = 5 then
        (if marks \<ge> 80 then ''A+''
         else if marks \<ge> 70 then ''A''
         else if marks \<ge> 65 then ''B+''
         else if marks \<ge> 60 then ''B''
         else if marks \<ge> 55 then ''C+''
         else if marks \<ge> 50 then ''C''
         else if marks \<ge> 45 then ''D+''
         else if marks \<ge> 40 then ''D''
         else ''F'')
      else
        (if marks \<ge> 80 then ''A''
         else if marks \<ge> 75 then ''B+''
         else if marks \<ge> 70 then ''B''
         else if marks \<ge> 65 then ''C+''
         else if marks \<ge> 60 then ''C''
         else if marks \<ge> 55 then ''D+''
         else if marks \<ge> 50 then ''D''
         else ''F''))"

section \<open>components/GPACalculator\<close>

text \<open>
  \<open>String.prototype.trim\<close> strips white space and line terminators from both ends.
  A character stands for a code unit below 256, where the white space of ECMAScript is
  TAB, LF, VT, FF, CR, SPACE and NBSP.
\<close>

definition is_js_whitespace :: "char \<Rightarrow> bool" where
  "is_js_whitespace c =
     (c \<in> set [CHR 0x09, CHR 0x0A, CHR 0x0B, CHR 0x0C, CHR 0x0D, CHR 0x20, CHR 0xA0])"

definition trim :: "string \<Rightarrow> string" where
  "trim s = rev (dropWhile is_js_whitespace (rev (dropWhile is_js_whitespace s)))"

text \<open>
  The component's \<open>useState\<close> cells. \<open>courses\<close> is already a field of \<open>Semester\<close>,
  so the cells carry the prefix \<open>st_\<close>.
\<close>

record GPACalculatorState =
  st_semesterName :: string
  st_courses :: "Course list"
  st_courseMarks :: "(string \<times> number) list"
  st_showSuccess :: bool

text \<open>
  What \<open>handleSave\<close> does to the outside, in order: \<open>alert\<close>, the \<open>onSave\<close> and
  \<open>onNavigate\<close> callbacks of the props, and the timer that hides the success message
  (its delay in milliseconds).
\<close>

datatype Effect =
    Alert string
  | OnSave Semester
  | SetTimeoutHideSuccess nat
  | OnNavigate string

text \<open>
  \<open>handleSave\<close> reads the clock twice: \<open>nowId\<close> is \<open>Date.now().toString()\<close> and
  \<open>nowIso\<close> is \<open>new Date().toISOString()\<close>. An early \<open>return\<close> leaves the state as
  it was. In the filter, a string is truthy when it is not empty.
\<close>

definition handleSave ::
  "string \<Rightarrow> string \<Rightarrow> GPACalculatorState \<Rightarrow> GPACalculatorState \<times> Effect list" where
  "handleSave nowId nowIso st =
     (if trim (st_semesterName st) = '''' then (st, [Alert ''Please enter a semester name''])
      else
        let validCourses =
              filter (\<lambda>c. course_name c \<noteq> '''' \<and> credits c > 0 \<and> grade c \<noteq> '''')
                (st_courses st)
        in if length validCourses = 0 then (st, [Alert ''Please add at least one valid course''])
           else
             let semester =
                   \<lparr>semester_id = nowId,
                    semester_name = st_semesterName st,
                    courses = validCourses,
                    gpa = calculateGPA validCourses,
                    totalCredits = foldl (\<lambda>sum c. sum + credits c) 0 validCourses,
                    date = nowIso\<rparr>
             in (\<lparr>st_semesterName = '''',
                  st_courses =
                    [\<lparr>course_id = ''1'', course_name = '''', credits = 0, grade = '''',
                      gradePoint = 0\<rparr>],
                  st_courseMarks = [],
                  st_showSuccess = True\<rparr>,
                 [OnSave semester, SetTimeoutHideSuccess 3000, OnNavigate ''dashboard'']))"

section \<open>IEEE binary64\<close>

text \<open>
  JavaScript computes in IEEE 754 binary64 with round-to-nearest, ties to even. This
  section gives the rounding and \<open>calculateGPA\<close> again with every operation rounded, so
  that a result of the program can be compared with the exact one. A binary64 value is a
  finite rational, an infinity or NaN; the two zeros are identified, since the code
  compares with \<open>>\<close> and never divides by a zero.
\<close>

datatype f64 = Finite rat | PosInf | NegInf | NaN

text \<open>\<open>ilog2 n\<close> is the \<open>k\<close> with \<open>2^k \<le> n < 2^(k+1)\<close>, for \<open>n \<ge> 1\<close>.\<close>

function ilog2 :: "int \<Rightarrow> int" where
  "ilog2 n = (if n < 2 then 0 else 1 + ilog2 (n div 2))"
  by pat_completeness auto
termination
  by (relation "measure nat") auto

declare ilog2.simps [simp del]

text \<open>The binade of a positive rational: \<open>2^e \<le> a < 2^(e+1)\<close>.\<close>

definition f64_exponent :: "rat \<Rightarrow> int" where
  "f64_exponent a =
     (if a \<ge> 1 then ilog2 \<lfloor>a\<rfloor>
      else if \<lceil>1 / a\<rceil> \<le> 1 then 0
      else - (1 + ilog2 (\<lceil>1 / a\<rceil> - 1)))"

definition round_half_even :: "rat \<Rightarrow> int" where
  "round_half_even x =
     (let f = \<lfloor>x\<rfloor>; d = x - of_int f
      in if d < 1 / 2 then f else if d > 1 / 2 then f + 1 else if even f then f else f + 1)"

text \<open>
  \<open>fl x\<close> is the binary64 value nearest to \<open>x\<close>: 53 significant bits, the least
  exponent -1022 (below it the spacing stays \<open>2^-1074\<close>), and an infinity from
  \<open>2^1024\<close> on. It is also how a decimal literal or \<open>parseFloat\<close> reads a number.
\<close>

definition fl :: "rat \<Rightarrow> f64" where
  "fl x =
     (if x = 0 then Finite 0
      else
        let a = \<bar>x\<bar>;
            e = max (f64_exponent a) (- 1022);
            q = 2 powi (e - 52);
            r = of_int (round_half_even (a / q)) * q
        in if r \<ge> 2 ^ 1024 then (if x > 0 then PosInf else NegInf)
           else Finite (if x > 0 then r else - r))"

fun f64_add :: "f64 \<Rightarrow> f64 \<Rightarrow> f64" where
  "f64_add NaN y = NaN"
| "f64_add x NaN = NaN"
| "f64_add PosInf NegInf = NaN"
| "f64_add NegInf PosInf = NaN"
| "f64_add PosInf y = PosInf"
| "f64_add x PosInf = PosInf"
| "f64_add NegInf y = NegInf"
| "f64_add x NegInf = NegInf"
| "f64_add (Finite a) (Finite b) = fl (a + b)"

definition f64_sign_inf :: "bool \<Rightarrow> f64" where
  "f64_sign_inf negative = (if negative then NegInf else PosInf)"

fun f64_negative :: "f64 \<Rightarrow> bool" where
  "f64_negative (Finite a) = (a < 0)"
| "f64_negative NegInf = True"
| "f64_negative x = False"

fun f64_mul :: "f64 \<Rightarrow> f64 \<Rightarrow> f64" where
  "f64_mul NaN y = NaN"
| "f64_mul x NaN = NaN"
| "f64_mul (Finite a) (Finite b) = fl (a * b)"
| "f64_mul x y =
     (if x = Finite 0 \<or> y = Finite 0 then NaN
      else f64_sign_inf (f64_negative x \<noteq> f64_negative y))"

fun f64_gt :: "f64 \<Rightarrow> f64 \<Rightarrow> bool" where
  "f64_gt NaN y = False"
| "f64_gt x NaN = False"
| "f64_gt (Finite a) (Finite b) = (a > b)"
| "f64_gt PosInf y = (y \<noteq> PosInf)"
| "f64_gt x NegInf = (x \<noteq> NegInf)"
| "f64_gt x y = False"

text \<open>
  The quotient \<open>x / y\<close> for a divisor \<open>y > 0\<close>: \<open>calculateGPA\<close> divides only under
  its guard \<open>totalCredits > 0\<close>.
\<close>

fun f64_div_pos :: "f64 \<Rightarrow> f64 \<Rightarrow> f64" where
  "f64_div_pos NaN y = NaN"
| "f64_div_pos x NaN = NaN"
| "f64_div_pos (Finite a) (Finite b) = fl (a / b)"
| "f64_div_pos (Finite a) y = Finite 0"
| "f64_div_pos x (Finite b) = x"
| "f64_div_pos x y = NaN"

text \<open>
  \<open>calculateGPA\<close> as the program runs it. The fields of a course hold the numbers as
  written in decimal; \<open>fl\<close> reads each one as its binary64 value.
\<close>

definition calculateGPA_f64 :: "Course list \<Rightarrow> f64" where
  "calculateGPA_f64 cs =
     (if length cs = 0 then Finite 0
      else
        let totalPoints =
              foldl (\<lambda>sum course. f64_add sum (f64_mul (fl (gradePoint course)) (fl (credits course))))
                (Finite 0) cs;
            totalCreditHours = foldl (\<lambda>sum course. f64_add sum (fl (credits course))) (Finite 0) cs
        in if f64_gt totalCreditHours (Finite 0) then f64_div_pos totalPoints totalCreditHours
           else Finite 0)"

section \<open>The specification's formulas and tables\<close>

text \<open>
  The definitions of this section follow the words of the specification, not the code;
  the theorems compare the code with them.
\<close>

text \<open>
  The credit-weighted mean \<open>sum(gradePoint_i * credits_i) / sum(credits_i)\<close>, and 0 for
  an empty list or a zero sum of credits.
\<close>

definition spec_calculateGPA :: "Course list \<Rightarrow> number" where
  "spec_calculateGPA cs =
     (if cs = [] \<or> (\<Sum>c\<leftarrow>cs. credits c) = 0 then 0
      else (\<Sum>c\<leftarrow>cs. gradePoint c * credits c) / (\<Sum>c\<leftarrow>cs. credits c))"

text \<open>
  \<open>sum(gpa_i * totalCredits_i) / sum(totalCredits_i)\<close>, and 0 for an empty list or a
  zero sum of \<open>totalCredits\<close>.
\<close>

definition spec_calculateCGPA :: "Semester list \<Rightarrow> number" where
  "spec_calculateCGPA ss =
     (if ss = [] \<or> (\<Sum>s\<leftarrow>ss. totalCredits s) = 0 then 0
      else (\<Sum>s\<leftarrow>ss. gpa s * totalCredits s) / (\<Sum>s\<leftarrow>ss. totalCredits s))"

text \<open>
  A threshold table read from the top: the first row whose threshold the value reaches
  gives the label, and \<open>other\<close> is the label when no row matches.
\<close>

fun spec_threshold_lookup :: "(number \<times> string) list \<Rightarrow> string \<Rightarrow> number \<Rightarrow> string" where
  "spec_threshold_lookup [] other x = other"
| "spec_threshold_lookup ((t, g) # rest) other x =
     (if x \<ge> t then g else spec_threshold_lookup rest other x)"

definition spec_marks_table_5 :: "(number \<times> string) list" where
  "spec_marks_table_5 =
     [(80, ''A+''), (70, ''A''), (65, ''B+''), (60, ''B''), (55, ''C+''), (50, ''C''),
      (45, ''D+''), (40, ''D'')]"

definition spec_marks_table_4 :: "(number \<times> string) list" where
  "spec_marks_table_4 =
     [(80, ''A''), (75, ''B+''), (70, ''B''), (65, ''C+''), (60, ''C''), (55, ''D+''),
      (50, ''D'')]"

definition spec_class_ladder_5 :: "(number \<times> string) list" where
  "spec_class_ladder_5 =
     [(9 / 2, ''First Class''), (7 / 2, ''Second Class (Upper)''),
      (5 / 2, ''Second Class (Lower)''), (2, ''Third Class''), (3 / 2, ''Pass'')]"

definition spec_class_ladder_4 :: "(number \<times> string) list" where
  "spec_class_ladder_4 =
     [(18 / 5, ''First Class''), (3, ''Second Class (Upper)''),
      (2, ''Second Class (Lower)''), (3 / 2, ''Third Class''), (1, ''Pass'')]"

definition spec_scale_5 :: "string \<rightharpoonup> number" where
  "spec_scale_5 =
     [''A+'' \<mapsto> 5, ''A'' \<mapsto> 9 / 2, ''B+'' \<mapsto> 4, ''B'' \<mapsto> 7 / 2, ''C+'' \<mapsto> 3,
      ''C'' \<mapsto> 5 / 2, ''D+'' \<mapsto> 2, ''D'' \<mapsto> 3 / 2, ''F'' \<mapsto> 0]"

definition spec_scale_4 :: "string \<rightharpoonup> number" where
  "spec_scale_4 =
     [''A+'' \<mapsto> 4, ''A'' \<mapsto> 4, ''B+'' \<mapsto> 7 / 2, ''B'' \<mapsto> 3, ''C+'' \<mapsto> 5 / 2,
      ''C'' \<mapsto> 2, ''D+'' \<mapsto> 3 / 2, ''D'' \<mapsto> 1, ''F'' \<mapsto> 0]"

section \<open>Sample inputs\<close>

text \<open>
  A form with two complete courses (credits 3 and 4, grade points 4.0 and 3.0), one
  course without credits and one without a grade, and the semester saved from it.
\<close>

definition sample_courses :: "Course list" where
  "sample_courses =
     [\<lparr>course_id = ''1'', course_name = ''Algebra'', credits = 3, grade = ''A'', gradePoint = 4\<rparr>,
      \<lparr>course_id = ''2'', course_name = ''Draft'', credits = 0, grade = ''A'', gradePoint = 4\<rparr>,
      \<lparr>course_id = ''3'', course_name = ''Logic'', credits = 4, grade = ''B'', gradePoint = 3\<rparr>,
      \<lparr>course_id = ''4'', course_name = ''Art'', credits = 2, grade = '''', gradePoint = 0\<rparr>]"

definition sample_state :: GPACalculatorState where
  "sample_state =
     \<lparr>st_semesterName = ''Fall 2024'', st_courses = sample_courses, st_courseMarks = [],
      st_showSuccess = False\<rparr>"

definition sample_semester :: Semester where
  "sample_semester =
     \<lparr>semester_id = ''1730000000000'', semester_name = ''Fall 2024'',
      courses =
        [\<lparr>course_id = ''1'', course_name = ''Algebra'', credits = 3, grade = ''A'', gradePoint = 4\<rparr>,
         \<lparr>course_id = ''3'', course_name = ''Logic'', credits = 4, grade = ''B'', gradePoint = 3\<rparr>],
      gpa = 24 / 7, totalCredits = 7, date = ''2024-10-27T03:33:20.000Z''\<rparr>"

text \<open>
  Two courses with the same grade point 3.0 and the credits 1 and 1.2; the credits input
  accepts 1.2.
\<close>

definition rounding_courses :: "Course list" where
  "rounding_courses =
     [\<lparr>course_id = ''1'', course_name = ''Algebra'', credits = 1, grade = ''B'', gradePoint = 3\<rparr>,
      \<lparr>course_id = ''2'', course_name = ''Logic'', credits = 6 / 5, grade = ''B'', gradePoint = 3\<rparr>]"

section \<open>The sums behind \<open>reduce\<close>\<close>

lemma reduce_sum: "foldl (\<lambda>sum x. sum + f x) a xs = a + (\<Sum>x\<leftarrow>xs. (f x :: number))"
  by (induction xs arbitrary: a) (simp_all add: add.assoc)

lemma calculateGPA_sums:
  "calculateGPA cs =
     (if (\<Sum>c\<leftarrow>cs. credits c) > 0
      then (\<Sum>c\<leftarrow>cs. gradePoint c * credits c) / (\<Sum>c\<leftarrow>cs. credits c) else 0)"
  by (cases cs) (simp_all add: calculateGPA_def reduce_sum Let_def)

lemma calculateCGPA_sums:
  "calculateCGPA ss =
     (if (\<Sum>s\<leftarrow>ss. totalCredits s) > 0
      then (\<Sum>s\<leftarrow>ss. gpa s * totalCredits s) / (\<Sum>s\<leftarrow>ss. totalCredits s) else 0)"
  by (cases ss) (simp_all add: calculateCGPA_def reduce_sum Let_def)

lemma sum_list_pos_credits:
  assumes ne: "cs \<noteq> []" and pos: "\<forall>c\<in>set cs. credits c > 0"
  shows "(\<Sum>c\<leftarrow>cs. credits c) > 0"
proof -
  from ne obtain c rest where cs: "cs = c # rest"
    by (cases cs) auto
  have "0 \<le> (\<Sum>c\<leftarrow>rest. credits c)"
    using pos cs by (intro sum_list_nonneg) (auto simp: less_imp_le)
  moreover have "0 < credits c"
    using pos cs by simp
  ultimately show ?thesis
    using cs by simp
qed

lemma sum_list_const_gradePoint:
  "\<forall>c\<in>set cs. gradePoint c = k \<Longrightarrow>
     (\<Sum>c\<leftarrow>cs. gradePoint c * credits c) = k * (\<Sum>c\<leftarrow>cs. credits c)"
  by (induction cs) (simp_all add: algebra_simps)

text \<open>
  Where no sum of credits is negative, the guard \<open>totalCredits > 0\<close> of the code and the
  guard "zero" of the specification select the same lists.
\<close>

lemma calculateGPA_spec_nonneg:
  "0 \<le> (\<Sum>c\<leftarrow>cs. credits c) \<Longrightarrow> calculateGPA cs = spec_calculateGPA cs"
  by (auto simp add: calculateGPA_sums spec_calculateGPA_def)

lemma calculateCGPA_spec_nonneg:
  "0 \<le> (\<Sum>s\<leftarrow>ss. totalCredits s) \<Longrightarrow> calculateCGPA ss = spec_calculateCGPA ss"
  by (auto simp add: calculateCGPA_sums spec_calculateCGPA_def)

section \<open>Weighted means\<close>

text \<open>
  C1. For every list of courses (credits are non-negative, as the data model has them),
  \<open>calculateGPA\<close> returns the credit-weighted mean
  \<open>sum(gradePoint_i * credits_i) / sum(credits_i)\<close>; if the list is empty or the sum of
  credits is zero, it returns 0 instead of dividing by zero.
\<close>

theorem calculateGPA_weighted_mean:
  assumes "\<forall>c\<in>set cs. 0 \<le> credits c"
  shows "calculateGPA cs =
     (if cs = [] \<or> (\<Sum>c\<leftarrow>cs. credits c) = 0 then 0
      else (\<Sum>c\<leftarrow>cs. gradePoint c * credits c) / (\<Sum>c\<leftarrow>cs. credits c))"
proof -
  have "0 \<le> (\<Sum>c\<leftarrow>cs. credits c)"
    using assms by (intro sum_list_nonneg) auto
  then show ?thesis
    by (auto simp add: calculateGPA_sums)
qed

theorem calculateGPA_weighted_mean_witness:
  "calculateGPA
     [\<lparr>course_id = ''1'', course_name = ''Algebra'', credits = 3, grade = ''A'', gradePoint = 4\<rparr>,
      \<lparr>course_id = ''3'', course_name = ''Logic'', credits = 4, grade = ''B'', gradePoint = 3\<rparr>]
     = 24 / 7
   \<and> calculateGPA [] = 0
   \<and> calculateGPA
       [\<lparr>course_id = ''2'', course_name = ''Draft'', credits = 0, grade = ''A'', gradePoint = 4\<rparr>]
     = 0"
  using calculateGPA_weighted_mean
      [of "[\<lparr>course_id = ''1'', course_name = ''Algebra'', credits = 3, grade = ''A'', gradePoint = 4\<rparr>,
            \<lparr>course_id = ''3'', course_name = ''Logic'', credits = 4, grade = ''B'', gradePoint = 3\<rparr>]"]
    calculateGPA_weighted_mean [of "[]"]
    calculateGPA_weighted_mean
      [of "[\<lparr>course_id = ''2'', course_name = ''Draft'', credits = 0, grade = ''A'', gradePoint = 4\<rparr>]"]
  by simp

text \<open>
  C2. For every list of semesters (no \<open>totalCredits\<close> is negative: it is a sum of
  credits), \<open>calculateCGPA\<close> returns \<open>sum(gpa_i * totalCredits_i) / sum(totalCredits_i)\<close>;
  if the list is empty or the sum of \<open>totalCredits\<close> is zero, it returns 0. On the single
  semester \<open>{gpa: 3.0, totalCredits: 10}\<close> it returns 3.0.
\<close>

theorem calculateCGPA_weighted_mean:
  assumes "\<forall>s\<in>set ss. 0 \<le> totalCredits s"
  shows "calculateCGPA ss =
     (if ss = [] \<or> (\<Sum>s\<leftarrow>ss. totalCredits s) = 0 then 0
      else (\<Sum>s\<leftarrow>ss. gpa s * totalCredits s) / (\<Sum>s\<leftarrow>ss. totalCredits s))
   \<and> calculateCGPA
        [\<lparr>semester_id = i, semester_name = n, courses = cs, gpa = 3, totalCredits = 10,
          date = d\<rparr>] = 3"
proof -
  have "0 \<le> (\<Sum>s\<leftarrow>ss. totalCredits s)"
    using assms by (intro sum_list_nonneg) auto
  then show ?thesis
    by (auto simp add: calculateCGPA_sums)
qed

theorem calculateCGPA_weighted_mean_witness:
  "calculateCGPA [sample_semester, sample_semester] = 24 / 7
   \<and> calculateCGPA [] = 0
   \<and> calculateCGPA
        [\<lparr>semester_id = ''1'', semester_name = ''Fall 2024'', courses = [], gpa = 3,
          totalCredits = 10, date = ''2024-10-27T03:33:20.000Z''\<rparr>] = 3"
  using calculateCGPA_weighted_mean
      [of "[sample_semester, sample_semester]" "''1''" "''Fall 2024''" "[]"
        "''2024-10-27T03:33:20.000Z''"]
    calculateCGPA_weighted_mean [of "[]"]
  by (simp add: sample_semester_def)

section \<open>A constant grade point\<close>

text \<open>
  The binade and the rounding step of \<open>fl\<close> are the ones of IEEE 754.
\<close>

lemma ilog2_nonneg: "0 \<le> ilog2 n"
  by (induction n rule: ilog2.induct) (simp add: ilog2.simps)

lemma ilog2_bounds: "1 \<le> n \<Longrightarrow> 2 ^ nat (ilog2 n) \<le> n \<and> n < 2 * 2 ^ nat (ilog2 n)"
proof (induction n rule: ilog2.induct)
  case (1 n)
  show ?case
  proof (cases "n < 2")
    case True
    with "1.prems" show ?thesis
      by (simp add: ilog2.simps)
  next
    case False
    then have "1 \<le> n div 2"
      by simp
    with "1.IH" False have ih: "2 ^ nat (ilog2 (n div 2)) \<le> n div 2"
        "n div 2 < 2 * 2 ^ nat (ilog2 (n div 2))"
      by simp_all
    have eq: "nat (ilog2 n) = Suc (nat (ilog2 (n div 2)))"
      using False ilog2_nonneg [of "n div 2"] by (subst ilog2.simps) (simp add: nat_add_distrib)
    from ih show ?thesis
      unfolding eq by auto
  qed
qed

lemma round_half_even_nearest: "\<bar>x - of_int (round_half_even x)\<bar> \<le> 1 / 2"
proof -
  have "0 \<le> x - of_int \<lfloor>x\<rfloor>" "x - of_int \<lfloor>x\<rfloor> < 1"
    by linarith+
  then show ?thesis
    by (auto simp add: round_half_even_def Let_def abs_le_iff)
qed

lemma f64_exponent_bounds:
  assumes "0 < a"
  shows "2 powi f64_exponent a \<le> a \<and> a < 2 powi (f64_exponent a + 1)"
proof (cases "1 \<le> a")
  case True
  then have n: "1 \<le> \<lfloor>a\<rfloor>"
    by simp
  define k where "k = nat (ilog2 \<lfloor>a\<rfloor>)"
  have e: "f64_exponent a = int k"
    using True ilog2_nonneg [of "\<lfloor>a\<rfloor>"] by (simp add: f64_exponent_def k_def)
  from ilog2_bounds [OF n] have b: "2 ^ k \<le> \<lfloor>a\<rfloor>" "\<lfloor>a\<rfloor> < 2 * 2 ^ k"
    by (simp_all add: k_def)
  have "(2::rat) ^ k \<le> a"
  proof -
    have "rat_of_int (2 ^ k) \<le> rat_of_int \<lfloor>a\<rfloor>"
      using b(1) by (simp only: of_int_le_iff)
    also have "\<dots> \<le> a"
      by simp
    finally show ?thesis
      by simp
  qed
  moreover have "a < 2 * (2::rat) ^ k"
  proof -
    have "\<lfloor>a\<rfloor> + 1 \<le> 2 * 2 ^ k"
      using b(2) by simp
    then have "rat_of_int (\<lfloor>a\<rfloor> + 1) \<le> rat_of_int (2 * 2 ^ k)"
      by (simp only: of_int_le_iff)
    moreover have "a < rat_of_int (\<lfloor>a\<rfloor> + 1)"
      by simp linarith
    ultimately show ?thesis
      by simp
  qed
  ultimately show ?thesis
    by (simp add: e power_int_add)
next
  case False
  with assms have inv: "1 < 1 / a"
    by simp
  define m where "m = \<lceil>1 / a\<rceil>"
  have up: "1 / a \<le> rat_of_int m" and low: "rat_of_int (m - 1) < 1 / a"
    unfolding m_def by linarith+
  from inv up have "1 < rat_of_int m"
    by linarith
  then have m2: "2 \<le> m"
    by linarith
  define k where "k = nat (ilog2 (m - 1))"
  have e: "f64_exponent a = - int (Suc k)"
    using False m2 ilog2_nonneg [of "m - 1"] by (simp add: f64_exponent_def k_def m_def)
  from m2 have "1 \<le> m - 1"
    by simp
  from ilog2_bounds [OF this] have b: "2 ^ k \<le> m - 1" "m - 1 < 2 * 2 ^ k"
    by (simp_all add: k_def)
  have "rat_of_int (2 ^ k) \<le> rat_of_int (m - 1)"
    using b(1) by (simp only: of_int_le_iff)
  with low have lt: "(2::rat) ^ k < 1 / a"
    by simp
  have "m \<le> 2 * 2 ^ k"
    using b(2) by simp
  then have "rat_of_int m \<le> rat_of_int (2 * 2 ^ k)"
    by (simp only: of_int_le_iff)
  with up have le: "1 / a \<le> (2::rat) ^ Suc k"
    by simp
  have e1: "f64_exponent a + 1 = - int k"
    by (simp add: e)
  have c1: "1 / (2::rat) ^ Suc k \<le> a"
    using le assms by (simp add: field_simps)
  have c2: "a < 1 / (2::rat) ^ k"
    using lt assms by (simp add: field_simps)
  have p1: "(2::rat) powi (- int (Suc k)) = 1 / 2 ^ Suc k"
    by (simp only: power_int_minus power_int_of_nat inverse_eq_divide)
  have p2: "(2::rat) powi (- int k) = 1 / 2 ^ k"
    by (simp only: power_int_minus power_int_of_nat inverse_eq_divide)
  have "2 powi f64_exponent a \<le> a"
    unfolding e p1 by (fact c1)
  moreover have "a < 2 powi (f64_exponent a + 1)"
    unfolding e1 p2 by (fact c2)
  ultimately show ?thesis
    by (rule conjI)
qed

text \<open>
  The binary64 values met on \<open>rounding_courses\<close>: the credits 1 and 1.2, the grade
  point 3, the product \<open>3 * 1.2\<close>, the two sums and the quotient.
\<close>

lemma floor_rat_numeral: "\<lfloor>numeral a / numeral b :: rat\<rfloor> = numeral a div numeral b"
  using floor_divide_of_int_eq [of "numeral a" "numeral b", where ?'a = rat] by simp

lemma fl_1: "fl 1 = Finite 1"
  apply (simp only: fl_def Let_def)
  apply (simp add: f64_exponent_def ilog2.simps floor_rat_numeral)
  apply (simp add: round_half_even_def Let_def floor_rat_numeral)
  done

lemma fl_3: "fl 3 = Finite 3"
  apply (simp only: fl_def Let_def)
  apply (simp add: f64_exponent_def ilog2.simps floor_rat_numeral)
  apply (simp add: round_half_even_def Let_def floor_rat_numeral)
  done

lemma fl_credits_2: "fl (6 / 5) = Finite (5404319552844595 / 4503599627370496)"
  apply (simp only: fl_def Let_def)
  apply (simp add: f64_exponent_def ilog2.simps floor_rat_numeral)
  apply (simp add: round_half_even_def Let_def floor_rat_numeral)
  done

lemma fl_points_2:
  "fl (16212958658533785 / 4503599627370496) = Finite (2026619832316723 / 562949953421312)"
  apply (simp only: fl_def Let_def)
  apply (simp add: f64_exponent_def ilog2.simps floor_rat_numeral)
  apply (simp add: round_half_even_def Let_def floor_rat_numeral)
  done

lemma fl_totalPoints:
  "fl (3715469692580659 / 562949953421312) = Finite (3715469692580659 / 562949953421312)"
  apply (simp only: fl_def Let_def)
  apply (simp add: f64_exponent_def ilog2.simps floor_rat_numeral)
  apply (simp add: round_half_even_def Let_def floor_rat_numeral)
  done

lemma fl_totalCredits:
  "fl (9907919180215091 / 4503599627370496) = Finite (2476979795053773 / 1125899906842624)"
  apply (simp only: fl_def Let_def)
  apply (simp add: f64_exponent_def ilog2.simps floor_rat_numeral)
  apply (simp add: round_half_even_def Let_def floor_rat_numeral)
  done

lemma fl_quotient:
  "fl (7430939385161318 / 2476979795053773) = Finite (6755399441055743 / 2251799813685248)"
  apply (simp only: fl_def Let_def)
  apply (simp add: f64_exponent_def ilog2.simps floor_rat_numeral)
  apply (simp add: round_half_even_def Let_def floor_rat_numeral)
  done

text \<open>
  C9, as stated, in the arithmetic of the program: on two courses with credits 1 and
  1.2 and the same grade point 3, the hypotheses hold and \<open>calculateGPA\<close> returns
  \<open>3 - 2^-51\<close>, printed 2.9999999999999996, not 3. The exact quotient is 3.
\<close>

theorem calculateGPA_constant_rounding_counterexample:
  "map credits rounding_courses = [1, 6 / 5]
   \<and> map gradePoint rounding_courses = [3, 3]
   \<and> calculateGPA_f64 rounding_courses = Finite (3 - 1 / 2 ^ 51)
   \<and> calculateGPA_f64 rounding_courses \<noteq> fl 3
   \<and> calculateGPA rounding_courses = 3"
  by (simp add: calculateGPA_f64_def calculateGPA_def rounding_courses_def fl_1 fl_3 fl_credits_2
      fl_points_2 fl_totalPoints fl_totalCredits fl_quotient)

text \<open>
  C9, amended. Under exact rational arithmetic, on a non-empty list of courses that all
  have \<open>credits > 0\<close> and the same grade point \<open>k\<close>, \<open>calculateGPA\<close> returns \<open>k\<close>.
\<close>

theorem calculateGPA_constant:
  assumes "cs \<noteq> []" and "\<forall>c\<in>set cs. credits c > 0 \<and> gradePoint c = k"
  shows "calculateGPA cs = k"
proof -
  have pos: "(\<Sum>c\<leftarrow>cs. credits c) > 0"
    using assms by (simp add: sum_list_pos_credits)
  have "(\<Sum>c\<leftarrow>cs. gradePoint c * credits c) = k * (\<Sum>c\<leftarrow>cs. credits c)"
    using assms(2) by (simp add: sum_list_const_gradePoint)
  with pos show ?thesis
    by (simp add: calculateGPA_sums)
qed

theorem calculateGPA_constant_witness:
  "calculateGPA
     [\<lparr>course_id = ''1'', course_name = ''Algebra'', credits = 3, grade = ''B+'', gradePoint = 7 / 2\<rparr>,
      \<lparr>course_id = ''2'', course_name = ''Logic'', credits = 5 / 2, grade = ''B+'', gradePoint = 7 / 2\<rparr>]
   = 7 / 2"
  using calculateGPA_constant
    [of "[\<lparr>course_id = ''1'', course_name = ''Algebra'', credits = 3, grade = ''B+'', gradePoint = 7 / 2\<rparr>,
      \<lparr>course_id = ''2'', course_name = ''Logic'', credits = 5 / 2, grade = ''B+'', gradePoint = 7 / 2\<rparr>]" "7 / 2"]
  by simp

section \<open>The required GPA\<close>

text \<open>
  C3. With \<open>remainingCredits \<le> 0\<close>, \<open>calculateRequiredGPA\<close> returns 0; otherwise it
  returns exactly
  \<open>((targetCGPA * (currentCredits + remainingCredits)) - (currentCGPA * currentCredits)) / remainingCredits\<close>.
  Nothing clamps the result: \<open>calculateRequiredGPA(3.0, 30, 3.5, 10)\<close> is 5.0, above the
  top of the 4.0 scale, and \<open>calculateRequiredGPA(4.0, 30, 1.0, 10)\<close> is negative.
\<close>

theorem calculateRequiredGPA_formula:
  "calculateRequiredGPA currentCGPA currentCredits targetCGPA remainingCredits =
     (if remainingCredits \<le> 0 then 0
      else ((targetCGPA * (currentCredits + remainingCredits)) - (currentCGPA * currentCredits))
             / remainingCredits)
   \<and> calculateRequiredGPA 3 30 (7 / 2) 10 = 5
   \<and> calculateRequiredGPA 3 30 (7 / 2) 10 > 4
   \<and> calculateRequiredGPA 4 30 1 10 < 0"
  by (simp add: calculateRequiredGPA_def Let_def)

text \<open>
  C10. With \<open>currentCredits \<ge> 0\<close> and \<open>remainingCredits > 0\<close>, a semester of
  \<open>remainingCredits\<close> credits at exactly the required GPA, after a record of
  \<open>currentCredits\<close> credits at \<open>currentCGPA\<close>, brings \<open>calculateCGPA\<close> to the target.
\<close>

theorem required_gpa_attains_target:
  assumes "0 \<le> currentCredits" and "0 < remainingCredits"
  shows "calculateCGPA
     [\<lparr>semester_id = i1, semester_name = n1, courses = cs1, gpa = currentCGPA,
        totalCredits = currentCredits, date = d1\<rparr>,
      \<lparr>semester_id = i2, semester_name = n2, courses = cs2,
        gpa = calculateRequiredGPA currentCGPA currentCredits targetCGPA remainingCredits,
        totalCredits = remainingCredits, date = d2\<rparr>]
   = targetCGPA"
proof -
  have pos: "currentCredits + remainingCredits > 0"
    using assms by simp
  have req:
    "calculateRequiredGPA currentCGPA currentCredits targetCGPA remainingCredits * remainingCredits
      = targetCGPA * (currentCredits + remainingCredits) - currentCGPA * currentCredits"
    using assms(2) by (simp add: calculateRequiredGPA_def Let_def)
  show ?thesis
    using pos by (simp add: calculateCGPA_sums req)
qed

theorem required_gpa_attains_target_witness:
  "calculateCGPA
     [\<lparr>semester_id = ''1'', semester_name = ''Fall'', courses = [], gpa = 3,
        totalCredits = 30, date = ''''\<rparr>,
      \<lparr>semester_id = ''2'', semester_name = ''Spring'', courses = [],
        gpa = calculateRequiredGPA 3 30 (7 / 2) 10,
        totalCredits = 10, date = ''''\<rparr>]
   = 7 / 2"
  using required_gpa_attains_target
    [of 30 10 "''1''" "''Fall''" "[]" 3 "''''" "''2''" "''Spring''" "[]" "7 / 2" "''''"]
  by simp

section \<open>Grades, scales and classes\<close>

text \<open>
  C4. For marks in [0,100], \<open>getGradeFromMarks\<close> returns the first match of the
  descending threshold table of the selected scale: the 5.0 table when the selector is
  exactly 5, the 4.0 table for every other selector, and F below the last threshold.
\<close>

theorem getGradeFromMarks_table:
  assumes "0 \<le> marks" and "marks \<le> 100"
  shows "getGradeFromMarks marks gradingScale =
           spec_threshold_lookup
             (if gradingScale = 5 then spec_marks_table_5 else spec_marks_table_4) ''F'' marks"
  using assms
  by (simp add: getGradeFromMarks_def spec_marks_table_5_def spec_marks_table_4_def)

theorem getGradeFromMarks_table_witness:
  "getGradeFromMarks 80 4 = spec_threshold_lookup spec_marks_table_4 ''F'' 80
   \<and> getGradeFromMarks 80 4 = ''A''
   \<and> getGradeFromMarks 80 5 = spec_threshold_lookup spec_marks_table_5 ''F'' 80
   \<and> getGradeFromMarks 80 5 = ''A+''
   \<and> getGradeFromMarks 39 4 = ''F''
   \<and> getGradeFromMarks 72 999 = ''B''"
  using getGradeFromMarks_table [of 80 4] getGradeFromMarks_table [of 80 5]
    getGradeFromMarks_table [of 39 4] getGradeFromMarks_table [of 72 999]
  by (simp add: spec_marks_table_5_def spec_marks_table_4_def)

text \<open>
  C5. \<open>getGradeFromMarks\<close> returns the empty string exactly when \<open>marks < 0\<close> or
  \<open>marks > 100\<close>; for marks in range it returns one of the nine letter grades, so a
  non-empty string. Every branch returns a string: there is no path that raises.
\<close>

theorem getGradeFromMarks_empty_iff:
  "(getGradeFromMarks marks gradingScale = '''') = (marks < 0 \<or> marks > 100)
   \<and> (0 \<le> marks \<and> marks \<le> 100 \<longrightarrow>
        getGradeFromMarks marks gradingScale
          \<in> set [''A+'', ''A'', ''B+'', ''B'', ''C+'', ''C'', ''D+'', ''D'', ''F''])"
  by (simp add: getGradeFromMarks_def)

theorem getGradeFromMarks_empty_iff_witness:
  "getGradeFromMarks 101 4 = '''' \<and> getGradeFromMarks (- 1) 5 = ''''
   \<and> getGradeFromMarks 100 4 = ''A'' \<and> getGradeFromMarks 0 5 = ''F''"
  using getGradeFromMarks_empty_iff [of 101 4] getGradeFromMarks_empty_iff [of "- 1" 5]
    getGradeFromMarks_empty_iff [of 100 4] getGradeFromMarks_empty_iff [of 0 5]
  by (simp add: getGradeFromMarks_def)

text \<open>
  C6. Read as a mapping, \<open>getGradeScale(5.0)\<close> is exactly the 5.0 table and
  \<open>getGradeScale\<close> of every other selector is exactly the 4.0 table; no key occurs
  twice; \<open>getGradeScale(999)\<close> is \<open>getGradeScale(4.0)\<close>.
\<close>

theorem getGradeScale_tables:
  "map_of (getGradeScale maxScale) = (if maxScale = 5 then spec_scale_5 else spec_scale_4)
   \<and> distinct (map fst (getGradeScale maxScale))
   \<and> getGradeScale 999 = getGradeScale 4
   \<and> map_of (getGradeScale 5) ''A+'' = Some 5
   \<and> map_of (getGradeScale 4) ''F'' = Some 0"
  by (auto simp add: getGradeScale_def spec_scale_5_def spec_scale_4_def)

text \<open>
  C7. The class of \<open>getAcademicClass\<close> is the first match of the six-band ladder of
  the scale: the 5.0 ladder when the selector is exactly 5, the 4.0 ladder for every
  other selector, and Fail below the last threshold. \<open>getAcademicClass(3.6, 4.0)\<close> is
  First Class and \<open>getAcademicClass(3.59, 4.0)\<close> is Second Class (Upper).
\<close>

theorem getAcademicClass_ladder:
  "class_name (getAcademicClass cgpa gradingScale) =
     spec_threshold_lookup
       (if gradingScale = 5 then spec_class_ladder_5 else spec_class_ladder_4) ''Fail'' cgpa
   \<and> class_name (getAcademicClass (18 / 5) 4) = ''First Class''
   \<and> class_name (getAcademicClass (359 / 100) 4) = ''Second Class (Upper)''
   \<and> class_name (getAcademicClass (9 / 2) 5) = ''First Class''"
  by (simp add: getAcademicClass_def spec_class_ladder_5_def spec_class_ladder_4_def)

section \<open>Saving a semester\<close>

text \<open>
  C8. Every semester that \<open>handleSave\<close> passes to \<open>onSave\<close> has
  \<open>gpa = calculateGPA(courses)\<close> and \<open>totalCredits\<close> equal to the sum of its courses'
  credits; each of its courses has \<open>credits > 0\<close> and a non-empty grade; its courses
  are the courses of the form that have a name, positive credits and a grade, so the
  other courses are left out before the aggregation.
\<close>

theorem handleSave_semester_consistent:
  assumes "OnSave sem \<in> set (snd (handleSave nowId nowIso st))"
  shows "gpa sem = calculateGPA (courses sem)
     \<and> totalCredits sem = (\<Sum>c\<leftarrow>courses sem. credits c)
     \<and> (\<forall>c\<in>set (courses sem). credits c > 0 \<and> grade c \<noteq> '''')
     \<and> courses sem =
         filter (\<lambda>c. course_name c \<noteq> '''' \<and> credits c > 0 \<and> grade c \<noteq> '''') (st_courses st)
     \<and> courses sem \<noteq> []"
  using assms
  by (auto simp add: handleSave_def Let_def reduce_sum split: if_splits)

theorem handleSave_semester_consistent_witness:
  "OnSave sample_semester
     \<in> set (snd (handleSave ''1730000000000'' ''2024-10-27T03:33:20.000Z'' sample_state))
   \<and> gpa sample_semester = calculateGPA (courses sample_semester)
   \<and> gpa sample_semester = 24 / 7
   \<and> totalCredits sample_semester = 7
   \<and> length (courses sample_semester) = 2"
proof -
  have produced:
    "OnSave sample_semester
       \<in> set (snd (handleSave ''1730000000000'' ''2024-10-27T03:33:20.000Z'' sample_state))"
    by (simp add: handleSave_def trim_def is_js_whitespace_def calculateGPA_def Let_def
        sample_state_def sample_courses_def sample_semester_def)
  have consistent: "gpa sample_semester = calculateGPA (courses sample_semester)"
    using handleSave_semester_consistent [OF produced] by (rule conjunct1)
  from produced consistent show ?thesis
    by (simp add: sample_semester_def)
qed

end
